theory Spec2Isabelle
  imports Main "HOL-Library.Sublist"
begin

section \<open>Python values shared by the modules\<close>

text \<open>
  Exceptions of the Python source are values: every function that can raise returns
  \<open>error + 'a\<close>, with \<open>Inl\<close> the exception. A Python \<open>str\<close> is a \<open>string\<close>; the
  model covers text whose code points are below 256.
\<close>

datatype error =
    NameError string
  | TypeError string
  | KeyError string
  | FileNotFoundError string
  | Exception string

text \<open>\<open>str(n)\<close> for an integer: decimal digits, a minus sign for a negative number.\<close>

definition digit_char :: "nat \<Rightarrow> char" where
  "digit_char d = char_of (48 + d)"

fun str_nat :: "nat \<Rightarrow> string" where
  "str_nat n = (if n < 10 then [digit_char n] else str_nat (n div 10) @ [digit_char (n mod 10)])"

declare str_nat.simps [simp del]


section \<open>inet/simulation/task.py\<close>

subsection \<open>Data\<close>

text \<open>
  The project class lives in \<open>inet.simulation.project\<close>; the functions here use only its
  \<open>get_full_path\<close> method, which is a field of the record.
\<close>

record simulation_project =
  get_full_path :: "string \<Rightarrow> string"

record simulation_config =
  simulation_project :: simulation_project
  working_directory :: string
  ini_file :: string
  config :: string



text \<open>What a simulation runner returns: the exit status and the two decoded streams.\<close>

record subprocess_result =
  returncode :: int
  stdout :: string
  stderr :: string

text \<open>
  \<open>TaskResult\<close> (in \<open>inet.common\<close>) keeps the result code and the reason it is
  constructed with; \<open>expected_result\<close> is \<open>None\<close> when the keyword is not passed.
\<close>

record task_result =
  result :: string
  expected_result :: "string option"
  reason :: "string option"

record simulation_task_result = task_result +
  task_subprocess_result :: "subprocess_result option"
  last_event_number :: "int option"
  last_simulation_time :: "string option"
  error_message :: "string option"
  error_module :: "string option"

subsection \<open>Searching a text for a pattern\<close>

text \<open>
  The patterns of this module are literals, \<open>(.*)\<close> and a final \<open>(\d+)\<close>. A matcher takes
  the text at a start position and returns the captured groups. \<open>lit\<close> consumes a literal;
  \<open>dot_star\<close> is the greedy \<open>(.*)\<close>: it takes as many characters other than a newline as
  it can and gives one back at a time until the rest of the pattern \<open>k\<close> matches;
  \<open>re_search\<close> tries the start positions from left to right, as \<open>re.search\<close> does.
\<close>

definition newline :: char where
  "newline = CHR 0x0A"

definition lit :: "string \<Rightarrow> string \<Rightarrow> string option" where
  "lit p s = (if take (length p) s = p then Some (drop (length p) s) else None)"

fun dot_star :: "(string \<Rightarrow> 'a option) \<Rightarrow> string \<Rightarrow> (string \<times> 'a) option" where
  "dot_star k [] = map_option (Pair []) (k [])"
| "dot_star k (c # cs) =
     (if c = newline then map_option (Pair []) (k (c # cs))
      else case dot_star k cs of
             Some (g, r) \<Rightarrow> Some (c # g, r)
           | None \<Rightarrow> map_option (Pair []) (k (c # cs)))"

definition rest_of_line :: "string \<Rightarrow> string" where
  "rest_of_line s = takeWhile (\<lambda>c. c \<noteq> newline) s"



fun re_search :: "(string \<Rightarrow> 'a option) \<Rightarrow> string \<Rightarrow> 'a option" where
  "re_search m [] = m []"
| "re_search m (c # cs) = (case m (c # cs) of Some g \<Rightarrow> Some g | None \<Rightarrow> re_search m cs)"







subsection \<open>SimulationTaskResult\<close>


subsection \<open>SimulationTask\<close>







text \<open>
  \<open>re.search(".*/home/.*", path)\<close> of \<open>clean_simulation_results\<close>, at a start position.
\<close>

definition home_pattern :: "string \<Rightarrow> (string \<times> string) option" where
  "home_pattern s = dot_star (\<lambda>r. map_option rest_of_line (lit ''/home/'' r)) s"

subsection \<open>Paths\<close>

text \<open>\<open>os.path.join\<close> of two components and \<open>os.path.dirname\<close>, as \<open>posixpath\<close> has them.\<close>

definition os_path_join :: "string \<Rightarrow> string \<Rightarrow> string" where
  "os_path_join a b =
     (if take 1 b = ''/'' then b
      else if a = [] \<or> take 1 (rev a) = ''/'' then a @ b
      else a @ ''/'' @ b)"

definition os_path_dirname :: "string \<Rightarrow> string" where
  "os_path_dirname p =
     (let head = rev (dropWhile (\<lambda>c. c \<noteq> CHR ''/'') (rev p))
      in if head \<noteq> [] \<and> filter (\<lambda>c. c \<noteq> CHR ''/'') head \<noteq> []
         then rev (dropWhile (\<lambda>c. c = CHR ''/'') (rev head))
         else head)"

subsection \<open>clean_simulation_results\<close>

text \<open>
  The file system is the set of the paths that exist. \<open>shutil.rmtree\<close> removes a path
  and every path below it. The function returns the exception or \<open>None\<close>, and the file
  system it leaves.
\<close>

definition rmtree :: "string \<Rightarrow> string set \<Rightarrow> string set" where
  "rmtree path fs = {q \<in> fs. q \<noteq> path \<and> \<not> prefix (path @ ''/'') q}"

definition results_path :: "simulation_config \<Rightarrow> string" where
  "results_path c =
     os_path_join (get_full_path (simulation_project c) (working_directory c)) ''results''"

definition clean_simulation_results ::
  "simulation_config \<Rightarrow> string set \<Rightarrow> (error + unit) \<times> string set" where
  "clean_simulation_results c fs =
     (let path = results_path c
      in if re_search home_pattern path = None
         then (Inl (Exception ''Path is not in home''), fs)
         else if path \<in> fs then (Inr (), rmtree path fs)
         else (Inr (), fs))"

section \<open>inet/test/chart.py\<close>

subsection \<open>Data and collaborators\<close>

text \<open>
  A chart of an analysis file has a name and a dictionary of properties; the value of a
  property is a text or \<open>None\<close>. \<open>ChartTestTask\<close> and \<open>ChartUpdateTask\<close> have the same
  three fields.
\<close>

record chart =
  name :: string
  properties :: "string \<rightharpoonup> string option"

record chart_task =
  project :: simulation_project
  analysis_file_name :: string
  chart_name :: string

text \<open>
  The libraries the module calls: \<open>load_anf_file\<close> with \<open>collect_charts\<close> gives the charts
  of the analysis file at a path, \<open>render\<close> the bytes of the image drawn for a chart,
  \<open>imread\<close> decodes an image file, \<open>rmse\<close> is \<open>sewar.rmse\<close>, \<open>metric_is_zero\<close> is the
  test \<open>metric == 0\<close> and \<open>str_metric\<close> is \<open>str(metric)\<close>.
\<close>

record ('img, 'm) scave =
  load_anf_file :: "string \<Rightarrow> chart list"
  render :: "chart \<Rightarrow> string"
  imread :: "string \<Rightarrow> 'img"
  rmse :: "'img \<Rightarrow> 'img \<Rightarrow> 'm"
  metric_is_zero :: "'m \<Rightarrow> bool"
  str_metric :: "'m \<Rightarrow> string"

text \<open>
  The file system of this module maps the path of a regular file to its bytes:
  \<open>os.path.isfile\<close> is membership in the domain, \<open>os.remove\<close> deletes the entry and
  \<open>os.rename\<close> moves it.
\<close>

type_synonym files = "string \<rightharpoonup> string"

definition os_remove :: "string \<Rightarrow> files \<Rightarrow> files" where
  "os_remove p fs = fs(p := None)"

definition os_rename :: "string \<Rightarrow> string \<Rightarrow> files \<Rightarrow> files" where
  "os_rename src dst fs = (if src = dst then fs else (fs(dst := fs src))(src := None))"

text \<open>
  \<open>re.sub(pattern, repl, text)\<close> for a pattern that is a literal and not empty: every
  occurrence, from left to right and without overlap, is replaced.
\<close>

function re_sub :: "string \<Rightarrow> string \<Rightarrow> string \<Rightarrow> string" where
  "re_sub p r [] = []"
| "re_sub p r (c # cs) =
     (if p \<noteq> [] \<and> take (length p) (c # cs) = p
      then r @ re_sub p r (drop (length p) (c # cs))
      else c # re_sub p r cs)"
  by pat_completeness auto
termination
  by (relation "measure (\<lambda>(p, r, s). length s)") auto

text \<open>\<open>a + b\<close> where \<open>b\<close> is a text: a \<open>TypeError\<close> when \<open>a\<close> is \<open>None\<close>.\<close>

definition str_add :: "string option \<Rightarrow> string \<Rightarrow> error + string" where
  "str_add a b =
     (case a of
        None \<Rightarrow> Inl (TypeError ''unsupported operand type(s) for +: NoneType and str'')
      | Some s \<Rightarrow> Inr (s @ b))"

text \<open>
  Modelled from the spec: \<open>analysis.export_image\<close> of the plotting library, which is not
  part of the sources. It writes the image of the chart to
  \<open><folder>/<target_folder>/<filename>.<format>\<close> and returns the name of the file
  relative to the folder (section 6 of the specification, baseline artifact layout).
\<close>

definition export_image ::
  "(chart \<Rightarrow> string) \<Rightarrow> chart \<Rightarrow> string \<Rightarrow> string \<Rightarrow> string \<Rightarrow> string \<Rightarrow> files
     \<Rightarrow> string \<times> files" where
  "export_image rnd c folder fmt target_folder filename fs =
     (let file_name = os_path_join target_folder (filename @ ''.'' @ fmt)
      in (file_name, fs(os_path_join folder file_name \<mapsto> rnd c)))"

subsection \<open>ChartTestTask\<close>

text \<open>The body of the loop of \<open>run_protected\<close> for a chart with the name of the task.\<close>

definition ChartTestTask_chart ::
  "('img, 'm) scave \<Rightarrow> chart_task \<Rightarrow> bool \<Rightarrow> chart \<Rightarrow> files
     \<Rightarrow> (error + task_result) \<times> files" where
  "ChartTestTask_chart E t keep_charts c fs =
     (case properties c ''image_export_filename'' of
        None \<Rightarrow> (Inl (KeyError ''image_export_filename''), fs)
      | Some image_export_filename \<Rightarrow>
          (let folder = os_path_dirname (get_full_path (project t) (analysis_file_name t))
           in case str_add image_export_filename ''_new'' of
                Inl e \<Rightarrow> (Inl e, fs)
              | Inr filename \<Rightarrow>
                  (let (file_name, fs1) =
                         export_image (render E) c folder ''png'' ''doc/media'' filename fs;
                       new_file_name = os_path_join folder file_name;
                       old_file_name = os_path_join folder (re_sub ''_new'' [] file_name)
                   in if image_export_filename = None \<or> image_export_filename = Some []
                      then (Inr \<lparr>result = ''SKIP'', expected_result = Some ''SKIP'',
                                 reason = Some ''Chart file name is not specified''\<rparr>, fs1)
                      else
                        (case fs1 old_file_name of
                           Some old_bytes \<Rightarrow>
                             (case fs1 new_file_name of
                                None \<Rightarrow> (Inl (FileNotFoundError new_file_name), fs1)
                              | Some new_bytes \<Rightarrow>
                                  (let new_image = imread E new_bytes;
                                       old_image = imread E old_bytes;
                                       metric = rmse E old_image new_image;
                                       fs2 = (if \<not> keep_charts then os_remove new_file_name fs1
                                              else fs1);
                                       res = (if metric_is_zero E metric then ''PASS''
                                              else ''FAIL'');
                                       rsn = (if res = ''FAIL''
                                              then Some (''Metric: '' @ str_metric E metric)
                                              else None)
                                   in (Inr \<lparr>result = res, expected_result = None,
                                            reason = rsn\<rparr>, fs2)))
                         | None \<Rightarrow>
                             (Inr \<lparr>result = ''FAIL'', expected_result = None,
                                   reason = Some ''Chart not found''\<rparr>, fs1)))))"

fun ChartTestTask_charts ::
  "('img, 'm) scave \<Rightarrow> chart_task \<Rightarrow> bool \<Rightarrow> chart list \<Rightarrow> files
     \<Rightarrow> (error + task_result) \<times> files" where
  "ChartTestTask_charts E t keep_charts [] fs =
     (Inr \<lparr>result = ''ERROR'', expected_result = None, reason = Some ''Chart not found''\<rparr>, fs)"
| "ChartTestTask_charts E t keep_charts (c # cs) fs =
     (if name c = chart_name t then ChartTestTask_chart E t keep_charts c fs
      else ChartTestTask_charts E t keep_charts cs fs)"

definition ChartTestTask_run_protected ::
  "('img, 'm) scave \<Rightarrow> chart_task \<Rightarrow> bool \<Rightarrow> files \<Rightarrow> (error + task_result) \<times> files" where
  "ChartTestTask_run_protected E t keep_charts fs =
     ChartTestTask_charts E t keep_charts
       (load_anf_file E (get_full_path (project t) (analysis_file_name t))) fs"

subsection \<open>MultipleChartTestTasks\<close>

text \<open>
  \<open>run_protected\<close>. The two calls it makes are parameters: \<open>simulations\<close> is
  \<open>self.multiple_simulation_tasks.run_protected\<close> and \<open>chart_tests\<close> is
  \<open>super().run_protected\<close>. The failing branch reads the name \<open>simulation_task_result\<close>,
  which the function never binds, so Python looks it up among the globals of the module:
  \<open>globals\<close> maps the global names that are task results to their values, and a name
  that is not there raises \<open>NameError\<close>.
\<close>

definition MultipleChartTestTasks_run_protected ::
  "(string \<rightharpoonup> task_result) \<Rightarrow> (files \<Rightarrow> task_result \<times> files)
     \<Rightarrow> (files \<Rightarrow> (error + task_result) \<times> files) \<Rightarrow> files
     \<Rightarrow> (error + task_result) \<times> files" where
  "MultipleChartTestTasks_run_protected globals simulations chart_tests fs =
     (let (multiple_simulation_task_results, fs1) = simulations fs
      in if result multiple_simulation_task_results \<noteq> ''DONE''
         then (case globals ''simulation_task_result'' of
                 None \<Rightarrow> (Inl (NameError ''simulation_task_result''), fs1)
               | Some simulation_task_result \<Rightarrow>
                   (Inr \<lparr>result = result simulation_task_result, expected_result = None,
                         reason = reason simulation_task_result\<rparr>, fs1))
         else chart_tests fs1)"

subsection \<open>ChartUpdateTask\<close>

definition ChartUpdateTask_chart ::
  "('img, 'm) scave \<Rightarrow> chart_task \<Rightarrow> chart \<Rightarrow> files \<Rightarrow> (error + task_result) \<times> files" where
  "ChartUpdateTask_chart E t c fs =
     (case properties c ''image_export_filename'' of
        None \<Rightarrow> (Inl (KeyError ''image_export_filename''), fs)
      | Some image_export_filename \<Rightarrow>
          (let folder = os_path_dirname (get_full_path (project t) (analysis_file_name t))
           in case str_add image_export_filename ''_new'' of
                Inl e \<Rightarrow> (Inl e, fs)
              | Inr filename \<Rightarrow>
                  (let (file_name, fs1) =
                         export_image (render E) c folder ''png'' ''doc/media'' filename fs;
                       new_file_name = os_path_join folder file_name;
                       old_file_name = os_path_join folder (re_sub ''_new'' [] file_name)
                   in if image_export_filename = None \<or> image_export_filename = Some []
                      then (Inr \<lparr>result = ''SKIP'', expected_result = Some ''SKIP'',
                                 reason = Some ''Chart file name is not specified''\<rparr>, fs1)
                      else
                        (case fs1 old_file_name of
                           Some old_bytes \<Rightarrow>
                             (case fs1 new_file_name of
                                None \<Rightarrow> (Inl (FileNotFoundError new_file_name), fs1)
                              | Some new_bytes \<Rightarrow>
                                  (let same = (old_bytes = new_bytes);
                                       fs2 = (if same then os_remove new_file_name fs1
                                              else os_rename new_file_name old_file_name fs1)
                                   in (Inr \<lparr>result = (if same then ''KEEP'' else ''UPDATE''),
                                            expected_result = None, reason = None\<rparr>, fs2)))
                         | None \<Rightarrow>
                             (case fs1 new_file_name of
                                None \<Rightarrow> (Inl (FileNotFoundError new_file_name), fs1)
                              | Some new_bytes \<Rightarrow>
                                  (Inr \<lparr>result = ''INSERT'', expected_result = None,
                                        reason = None\<rparr>,
                                   os_rename new_file_name old_file_name fs1))))))"

fun ChartUpdateTask_charts ::
  "('img, 'm) scave \<Rightarrow> chart_task \<Rightarrow> chart list \<Rightarrow> files \<Rightarrow> (error + task_result) \<times> files" where
  "ChartUpdateTask_charts E t [] fs =
     (Inr \<lparr>result = ''ERROR'', expected_result = None, reason = Some ''Chart not found''\<rparr>, fs)"
| "ChartUpdateTask_charts E t (c # cs) fs =
     (if name c = chart_name t then ChartUpdateTask_chart E t c fs
      else ChartUpdateTask_charts E t cs fs)"

definition ChartUpdateTask_run_protected ::
  "('img, 'm) scave \<Rightarrow> chart_task \<Rightarrow> files \<Rightarrow> (error + task_result) \<times> files" where
  "ChartUpdateTask_run_protected E t fs =
     ChartUpdateTask_charts E t
       (load_anf_file E (get_full_path (project t) (analysis_file_name t))) fs"

subsection \<open>The layout of the image files in the specification\<close>

text \<open>
  Section 6 of the specification: the baseline image of a chart with the declared name
  \<open>n\<close> is \<open><folder>/<media>/<n>.png\<close> and the candidate image is
  \<open><folder>/<media>/<n>_new.png\<close>, where the folder is the one of the analysis file and
  the media directory is \<open>doc/media\<close>. These two definitions follow the specification;
  the tasks compute their paths themselves.
\<close>

definition chart_folder :: "chart_task \<Rightarrow> string" where
  "chart_folder t = os_path_dirname (get_full_path (project t) (analysis_file_name t))"

definition baseline_path :: "chart_task \<Rightarrow> string \<Rightarrow> string" where
  "baseline_path t n = os_path_join (chart_folder t) (os_path_join ''doc/media'' (n @ ''.png''))"

definition candidate_path :: "chart_task \<Rightarrow> string \<Rightarrow> string" where
  "candidate_path t n =
     os_path_join (chart_folder t) (os_path_join ''doc/media'' (n @ ''_new.png''))"

text \<open>
  The chart definition a task finds: the first chart of the analysis file that has the
  name of the task.
\<close>

definition find_chart :: "('img, 'm) scave \<Rightarrow> chart_task \<Rightarrow> chart option" where
  "find_chart E t =
     find (\<lambda>c. name c = chart_name t)
       (load_anf_file E (get_full_path (project t) (analysis_file_name t)))"

section \<open>Concrete inputs\<close>

text \<open>Two configurations, one below \<open>/tmp\<close> and one below a home directory.\<close>

definition tmp_config :: simulation_config where
  "tmp_config = \<lparr>simulation_project = \<lparr>get_full_path = (\<lambda>p. ''/tmp/inet/'' @ p)\<rparr>,
     working_directory = ''examples/ethernet'', ini_file = ''omnetpp.ini'',
     config = ''General''\<rparr>"

definition home_config :: simulation_config where
  "home_config = \<lparr>simulation_project = \<lparr>get_full_path = (\<lambda>p. ''/home/user/inet/'' @ p)\<rparr>,
     working_directory = ''examples/ethernet'', ini_file = ''omnetpp.ini'',
     config = ''General''\<rparr>"

text \<open>
  A chart task on an analysis file of a project below a home directory, a chart with a
  given value of the property \<open>image_export_filename\<close>, and libraries over given
  charts: an image is its bytes and the metric is 0 for equal images and 1 otherwise.
\<close>

definition example_task :: chart_task where
  "example_task =
     \<lparr>project = \<lparr>get_full_path = (\<lambda>p. ''/home/user/inet/'' @ p)\<rparr>,
      analysis_file_name = ''showcases/wireless/Wireless.anf'',
      chart_name = ''throughput''\<rparr>"

definition example_chart :: "string option \<Rightarrow> chart" where
  "example_chart v =
     \<lparr>name = ''throughput'', properties = [''image_export_filename'' \<mapsto> v]\<rparr>"

definition example_scave :: "chart list \<Rightarrow> (string, nat) scave" where
  "example_scave cs =
     \<lparr>load_anf_file = (\<lambda>p. cs), render = (\<lambda>c. ''image of '' @ name c), imread = (\<lambda>b. b),
      rmse = (\<lambda>a b. if a = b then 0 else 1), metric_is_zero = (\<lambda>m. m = 0),
      str_metric = str_nat\<rparr>"

text \<open>A simulation batch that ended with an error.\<close>

definition failed_simulations :: "files \<Rightarrow> task_result \<times> files" where
  "failed_simulations fs =
     (\<lparr>result = ''ERROR'', expected_result = None, reason = Some ''Non-zero exit code''\<rparr>, fs)"

section \<open>Lemmas about the pattern search\<close>

lemma lit_Some_iff: "lit p s = Some r \<longleftrightarrow> s = p @ r"
  by (auto simp: lit_def) (metis append_take_drop_id)

lemma lit_None_iff: "lit p s = None \<longleftrightarrow> \<not> prefix p s"
  by (auto simp: lit_def prefix_def) (metis append_take_drop_id)

lemma re_search_SomeD:
  "re_search m s = Some g \<Longrightarrow> \<exists>pre rest. s = pre @ rest \<and> m rest = Some g"
proof (induction s)
  case Nil
  then show ?case by simp
next
  case (Cons c cs)
  show ?case
  proof (cases "m (c # cs)")
    case None
    with Cons.prems have "re_search m cs = Some g" by simp
    then obtain pre rest where "cs = pre @ rest" "m rest = Some g"
      using Cons.IH by blast
    then have "c # cs = (c # pre) @ rest \<and> m rest = Some g" by simp
    then show ?thesis by blast
  next
    case (Some a)
    with Cons.prems have "m (c # cs) = Some g" by simp
    then have "c # cs = [] @ (c # cs) \<and> m (c # cs) = Some g" by simp
    then show ?thesis by blast
  qed
qed

lemma re_search_found:
  "m rest \<noteq> None \<Longrightarrow> re_search m (pre @ rest) \<noteq> None"
proof (induction pre)
  case Nil
  then show ?case by (cases rest) (auto split: option.splits)
next
  case (Cons c pre)
  then show ?case by (auto split: option.splits)
qed

lemma dot_star_SomeD:
  "dot_star k s = Some (g, r) \<Longrightarrow> \<exists>rest. s = g @ rest \<and> newline \<notin> set g \<and> k rest = Some r"
proof (induction s arbitrary: g)
  case Nil
  then show ?case by auto
next
  case (Cons c cs)
  show ?case
  proof (cases "c \<noteq> newline \<and> dot_star k cs \<noteq> None")
    case True
    then obtain g' r' where d: "dot_star k cs = Some (g', r')" by auto
    with True Cons.prems have g: "g = c # g'" "r' = r" by auto
    from d g have "dot_star k cs = Some (g', r)" by simp
    from Cons.IH [OF this] obtain rest where "cs = g' @ rest" "newline \<notin> set g'" "k rest = Some r"
      by blast
    with g True show ?thesis by auto
  next
    case False
    with Cons.prems have "g = [] \<and> k (c # cs) = Some r"
      by (auto split: if_splits option.splits)
    then show ?thesis by simp
  qed
qed

lemma dot_star_found:
  "newline \<notin> set g \<Longrightarrow> k rest \<noteq> None \<Longrightarrow> dot_star k (g @ rest) \<noteq> None"
proof (induction g)
  case Nil
  then show ?case by (cases rest) (auto split: option.splits)
next
  case (Cons c g)
  then show ?case by (auto split: option.splits)
qed

lemma home_pattern_sound:
  assumes "re_search home_pattern s \<noteq> None"
  shows "sublist ''/home/'' s"
proof -
  from assms obtain g where "re_search home_pattern s = Some g" by blast
  from re_search_SomeD [OF this] obtain pre rest where s: "s = pre @ rest"
      and m: "home_pattern rest = Some g"
    by blast
  obtain a b where g: "g = (a, b)" by (cases g)
  from m g have "dot_star (\<lambda>r. map_option rest_of_line (lit ''/home/'' r)) rest = Some (a, b)"
    by (simp add: home_pattern_def)
  from dot_star_SomeD [OF this] obtain rest' where r: "rest = a @ rest'"
      and k: "map_option rest_of_line (lit ''/home/'' rest') = Some b"
    by (elim exE conjE)
  from k obtain r2 where "lit ''/home/'' rest' = Some r2"
    by (cases "lit ''/home/'' rest'") simp_all
  then have "rest' = ''/home/'' @ r2" by (simp only: lit_Some_iff)
  then have "s = (pre @ a) @ ''/home/'' @ r2" by (simp only: s r append_assoc)
  then show ?thesis by (simp only: sublist_appendI)
qed

lemma home_pattern_complete:
  assumes "sublist ''/home/'' s"
  shows "re_search home_pattern s \<noteq> None"
proof -
  from assms obtain pre r2 where s: "s = pre @ ''/home/'' @ r2" by (auto simp: sublist_def)
  have "lit ''/home/'' (''/home/'' @ r2) = Some r2" by (simp only: lit_Some_iff)
  then have k: "map_option rest_of_line (lit ''/home/'' (''/home/'' @ r2)) \<noteq> None" by simp
  have "dot_star (\<lambda>r. map_option rest_of_line (lit ''/home/'' r)) ([] @ ''/home/'' @ r2) \<noteq> None"
    by (rule dot_star_found) (simp, rule k)
  then have "home_pattern (''/home/'' @ r2) \<noteq> None"
    by (simp add: home_pattern_def)
  then have "re_search home_pattern (pre @ ''/home/'' @ r2) \<noteq> None"
    by (rule re_search_found)
  with s show ?thesis by simp
qed

section \<open>Lemmas about the replacement of a literal\<close>

lemma take_eq_imp_sublist:
  assumes "take (length p) s = p"
  shows "sublist p s"
proof -
  have "s = [] @ p @ drop (length p) s"
    using assms append_take_drop_id [of "length p" s] by simp
  then show ?thesis
    unfolding sublist_def by (intro exI)
qed

lemma not_sublist_tail: "\<not> sublist p (c # cs) \<Longrightarrow> \<not> sublist p cs"
  by (simp add: sublist_Cons_right)

lemma re_sub_no_occurrence: "\<not> sublist p s \<Longrightarrow> re_sub p r s = s"
proof (induction s)
  case Nil
  then show ?case by simp
next
  case (Cons c cs)
  have a: "take (length p) (c # cs) \<noteq> p"
    using Cons.prems take_eq_imp_sublist by blast
  have b: "re_sub p r cs = cs"
    using Cons.IH not_sublist_tail [OF Cons.prems] .
  show ?case
    by (simp add: a b)
qed

lemma no_match_inside:
  assumes p: "p \<noteq> []" and h: "hd p \<notin> set (tl p)" and n: "\<not> sublist p (x # a)"
  shows "take (length p) (x # a @ p @ b) \<noteq> p"
proof
  assume eq: "take (length p) (x # a @ p @ b) = p"
  then have eq': "take (length p) ((x # a) @ (p @ b)) = p" by simp
  show False
  proof (cases "length p \<le> length (x # a)")
    case True
    then have z: "length p - length (x # a) = 0" by simp
    have "take (length p) ((x # a) @ (p @ b))
          = take (length p) (x # a) @ take (length p - length (x # a)) (p @ b)"
      by (rule take_append)
    also have "\<dots> = take (length p) (x # a)"
      by (simp only: z take_0 append_Nil2)
    finally have "take (length p) (x # a) = p"
      using eq' by simp
    then show False
      using n take_eq_imp_sublist by blast
  next
    case False
    then have lt: "Suc (length a) < length p" by simp
    have "p ! Suc (length a) = (take (length p) ((x # a) @ (p @ b))) ! Suc (length a)"
      using eq' by simp
    also have "\<dots> = ((x # a) @ (p @ b)) ! Suc (length a)"
      using lt by (simp only: nth_take)
    also have "\<dots> = (p @ b) ! 0"
      using nth_append_length_plus [of "x # a" "p @ b" 0] by simp
    also have "\<dots> = hd p"
      using p by (cases p) simp_all
    finally have e: "p ! Suc (length a) = hd p" .
    have t: "p ! Suc (length a) = tl p ! length a"
      using p by (cases p) simp_all
    have "length a < length (tl p)"
      using lt by simp
    then have "tl p ! length a \<in> set (tl p)"
      by (rule nth_mem)
    then show False
      using e h t by simp
  qed
qed

lemma re_sub_first_occurrence:
  assumes p: "p \<noteq> []" and h: "hd p \<notin> set (tl p)"
  shows "\<not> sublist p a \<Longrightarrow> re_sub p r (a @ p @ b) = a @ r @ re_sub p r b"
proof (induction a)
  case Nil
  obtain y ys where py: "p = y # ys" using p by (cases p) auto
  have "re_sub p r (y # ys @ b) = r @ re_sub p r (drop (length p) (y # ys @ b))"
    using py by simp
  then show ?case using py by simp
next
  case (Cons x a)
  have a: "take (length p) (x # a @ p @ b) \<noteq> p"
    using no_match_inside [OF p h Cons.prems] .
  have b: "re_sub p r (a @ p @ b) = a @ r @ re_sub p r b"
    using Cons.IH not_sublist_tail [OF Cons.prems] .
  show ?case
    by (simp add: a b)
qed

lemma sublist_skip_prefix:
  assumes p: "p \<noteq> []"
  shows "hd p \<notin> set u \<Longrightarrow> sublist p (u @ v) \<Longrightarrow> sublist p v"
proof (induction u)
  case Nil
  then show ?case by simp
next
  case (Cons x u)
  from Cons.prems(1) have hx: "hd p \<noteq> x" and hu: "hd p \<notin> set u" by auto
  from Cons.prems(2) have "prefix p (x # u @ v) \<or> sublist p (u @ v)"
    by (simp add: sublist_Cons_right)
  moreover have "\<not> prefix p (x # u @ v)"
    using p hx by (cases p) auto
  ultimately have "sublist p (u @ v)" by blast
  then show ?case
    using Cons.IH [OF hu] by simp
qed

section \<open>Lemmas about the paths of the image files\<close>

lemma join_media:
  "os_path_join ''doc/media'' x = (if take 1 x = ''/'' then x else ''doc/media/'' @ x)"
  by (simp add: os_path_join_def)

lemma new_hd: "hd ''_new'' \<notin> set (tl ''_new'')"
  by simp

lemma re_sub_png: "re_sub ''_new'' [] ''.png'' = ''.png''"
  by simp

lemma re_sub_candidate:
  assumes "\<not> sublist ''_new'' a"
  shows "re_sub ''_new'' [] (a @ ''_new.png'') = a @ ''.png''"
proof -
  have "re_sub ''_new'' [] (a @ ''_new'' @ ''.png'') = a @ [] @ re_sub ''_new'' [] ''.png''"
    by (rule re_sub_first_occurrence [OF _ new_hd assms]) simp
  then show ?thesis
    by (simp add: re_sub_png)
qed

lemma no_new_media:
  assumes "\<not> sublist ''_new'' n"
  shows "\<not> sublist ''_new'' (''doc/media/'' @ n)"
proof
  assume "sublist ''_new'' (''doc/media/'' @ n)"
  then have "sublist ''_new'' n"
    by (rule sublist_skip_prefix [rotated 2]) simp_all
  with assms show False by simp
qed

lemma baseline_name:
  assumes "\<not> sublist ''_new'' n"
  shows "re_sub ''_new'' [] (os_path_join ''doc/media'' (n @ ''_new.png''))
         = os_path_join ''doc/media'' (n @ ''.png'')"
proof (cases "take 1 n = ''/''")
  case True
  then have "take 1 (n @ ''_new.png'') = ''/''" "take 1 (n @ ''.png'') = ''/''"
    by (cases n; simp)+
  then show ?thesis
    by (simp add: join_media re_sub_candidate [OF assms])
next
  case False
  then have "take 1 (n @ ''_new.png'') \<noteq> ''/''" "take 1 (n @ ''.png'') \<noteq> ''/''"
    by (cases n; simp)+
  then have "os_path_join ''doc/media'' (n @ ''_new.png'') = (''doc/media/'' @ n) @ ''_new.png''"
     and "os_path_join ''doc/media'' (n @ ''.png'') = (''doc/media/'' @ n) @ ''.png''"
    by (simp_all add: join_media)
  then show ?thesis
    by (simp only: re_sub_candidate [OF no_new_media [OF assms]])
qed

lemma os_path_join_differ:
  assumes "(take 1 x = ''/'') = (take 1 y = ''/'')" and "x \<noteq> y"
  shows "os_path_join a x \<noteq> os_path_join a y"
proof (cases "take 1 x = ''/''")
  case True
  with assms(1) have "take 1 y = ''/''" by simp
  with True assms(2) show ?thesis by (simp add: os_path_join_def)
next
  case False
  with assms(1) have "take 1 y \<noteq> ''/''" by simp
  with False assms(2) show ?thesis by (simp add: os_path_join_def)
qed

lemma media_differ:
  "os_path_join ''doc/media'' (n @ ''_new.png'') \<noteq> os_path_join ''doc/media'' (n @ ''.png'')"
  by (cases n) (simp_all add: join_media)

lemma media_same_kind:
  "(take 1 (os_path_join ''doc/media'' (n @ ''_new.png'')) = ''/'')
   = (take 1 (os_path_join ''doc/media'' (n @ ''.png'')) = ''/'')"
  by (cases n) (simp_all add: join_media)

lemma candidate_is_not_baseline: "candidate_path t n \<noteq> baseline_path t n"
  unfolding candidate_path_def baseline_path_def
  by (rule os_path_join_differ [OF media_same_kind media_differ])

section \<open>Lemmas about the chart tasks\<close>

lemma ChartTestTask_charts_find:
  "ChartTestTask_charts E t k cs fs =
     (case find (\<lambda>c. name c = chart_name t) cs of
        None \<Rightarrow> (Inr \<lparr>result = ''ERROR'', expected_result = None,
                       reason = Some ''Chart not found''\<rparr>, fs)
      | Some c \<Rightarrow> ChartTestTask_chart E t k c fs)"
  by (induction cs) simp_all

lemma ChartUpdateTask_charts_find:
  "ChartUpdateTask_charts E t cs fs =
     (case find (\<lambda>c. name c = chart_name t) cs of
        None \<Rightarrow> (Inr \<lparr>result = ''ERROR'', expected_result = None,
                       reason = Some ''Chart not found''\<rparr>, fs)
      | Some c \<Rightarrow> ChartUpdateTask_chart E t c fs)"
  by (induction cs) simp_all

lemma ChartTestTask_chart_named:
  assumes p: "properties c ''image_export_filename'' = Some (Some n)"
    and n: "n \<noteq> []" and s: "\<not> sublist ''_new'' n"
  shows "ChartTestTask_chart E t keep_charts c fs =
     (let fs1 = fs(candidate_path t n \<mapsto> render E c)
      in case fs (baseline_path t n) of
           None \<Rightarrow> (Inr \<lparr>result = ''FAIL'', expected_result = None,
                          reason = Some ''Chart not found''\<rparr>, fs1)
         | Some old_bytes \<Rightarrow>
             (let metric = rmse E (imread E old_bytes) (imread E (render E c))
              in (Inr \<lparr>result = (if metric_is_zero E metric then ''PASS'' else ''FAIL''),
                       expected_result = None,
                       reason = (if metric_is_zero E metric then None
                                 else Some (''Metric: '' @ str_metric E metric))\<rparr>,
                  if keep_charts then fs1 else fs1(candidate_path t n := None))))"
proof -
  have b: "os_path_join (chart_folder t)
             (re_sub ''_new'' [] (os_path_join ''doc/media'' (n @ ''_new.png'')))
           = baseline_path t n"
    by (simp only: baseline_name [OF s] baseline_path_def)
  have d: "baseline_path t n \<noteq> candidate_path t n"
    using candidate_is_not_baseline [of t n] by simp
  show ?thesis
    unfolding ChartTestTask_chart_def
    by (simp add: p n str_add_def export_image_def Let_def chart_folder_def [symmetric]
          candidate_path_def [symmetric] b d os_remove_def split: option.split)
qed

lemma ChartUpdateTask_chart_named:
  assumes p: "properties c ''image_export_filename'' = Some (Some n)"
    and n: "n \<noteq> []" and s: "\<not> sublist ''_new'' n"
  shows "ChartUpdateTask_chart E t c fs =
     (let fs1 = fs(candidate_path t n \<mapsto> render E c)
      in case fs (baseline_path t n) of
           None \<Rightarrow> (Inr \<lparr>result = ''INSERT'', expected_result = None, reason = None\<rparr>,
                    (fs1(baseline_path t n \<mapsto> render E c))(candidate_path t n := None))
         | Some old_bytes \<Rightarrow>
             (if old_bytes = render E c
              then (Inr \<lparr>result = ''KEEP'', expected_result = None, reason = None\<rparr>,
                    fs1(candidate_path t n := None))
              else (Inr \<lparr>result = ''UPDATE'', expected_result = None, reason = None\<rparr>,
                    (fs1(baseline_path t n \<mapsto> render E c))(candidate_path t n := None))))"
proof -
  have b: "os_path_join (chart_folder t)
             (re_sub ''_new'' [] (os_path_join ''doc/media'' (n @ ''_new.png'')))
           = baseline_path t n"
    by (simp only: baseline_name [OF s] baseline_path_def)
  have d: "baseline_path t n \<noteq> candidate_path t n"
    using candidate_is_not_baseline [of t n] by simp
  have d': "candidate_path t n \<noteq> baseline_path t n"
    by (rule candidate_is_not_baseline)
  show ?thesis
    unfolding ChartUpdateTask_chart_def
    by (simp add: p n str_add_def export_image_def Let_def chart_folder_def [symmetric]
          candidate_path_def [symmetric] b d d' os_remove_def os_rename_def
          split: option.split)
qed

lemma ChartTestTask_run_protected_found:
  "find_chart E t = Some c \<Longrightarrow>
   ChartTestTask_run_protected E t keep_charts fs = ChartTestTask_chart E t keep_charts c fs"
  by (simp add: ChartTestTask_run_protected_def ChartTestTask_charts_find find_chart_def)

lemma ChartUpdateTask_run_protected_found:
  "find_chart E t = Some c \<Longrightarrow>
   ChartUpdateTask_run_protected E t fs = ChartUpdateTask_chart E t c fs"
  by (simp add: ChartUpdateTask_run_protected_def ChartUpdateTask_charts_find find_chart_def)

lemma ChartTestTask_run_protected_not_found:
  "find_chart E t = None \<Longrightarrow>
   ChartTestTask_run_protected E t keep_charts fs =
     (Inr \<lparr>result = ''ERROR'', expected_result = None, reason = Some ''Chart not found''\<rparr>, fs)"
  by (simp add: ChartTestTask_run_protected_def ChartTestTask_charts_find find_chart_def)

section \<open>Properties of inet/simulation/task.py\<close>

subsection \<open>The result code of a simulation run\<close>



subsection \<open>The guard of the destructive cleanup\<close>

text \<open>
  C7. When the results path of a configuration does not contain "/home/",
  \<open>clean_simulation_results\<close> raises and leaves the file system as it was, so every path
  that existed still exists; a file system that changed implies a path with "/home/" in
  it. With "/home/" in the path the call returns and the results directory, when it
  exists, is removed with what is below it.
\<close>

theorem clean_simulation_results_guard:
  "(\<not> sublist ''/home/'' (results_path c) \<longrightarrow>
      clean_simulation_results c fs = (Inl (Exception ''Path is not in home''), fs))
   \<and> (snd (clean_simulation_results c fs) \<noteq> fs \<longrightarrow> sublist ''/home/'' (results_path c))
   \<and> (sublist ''/home/'' (results_path c) \<longrightarrow>
        clean_simulation_results c fs =
          (Inr (), if results_path c \<in> fs then rmtree (results_path c) fs else fs))"
proof -
  have iff: "re_search home_pattern (results_path c) = None \<longleftrightarrow>
             \<not> sublist ''/home/'' (results_path c)"
    using home_pattern_sound [of "results_path c"] home_pattern_complete [of "results_path c"]
    by blast
  show ?thesis
    by (simp add: clean_simulation_results_def Let_def iff)
qed

theorem clean_simulation_results_guard_witness:
  "\<not> sublist ''/home/'' (results_path tmp_config)
   \<and> clean_simulation_results tmp_config
        {''/tmp/inet/examples/ethernet/results'', ''/tmp/inet/examples/ethernet/results/a.sca''}
      = (Inl (Exception ''Path is not in home''),
         {''/tmp/inet/examples/ethernet/results'', ''/tmp/inet/examples/ethernet/results/a.sca''})
   \<and> sublist ''/home/'' (results_path home_config)
   \<and> clean_simulation_results home_config {''/home/user/inet/examples/ethernet/results''}
      = (Inr (), if results_path home_config \<in> {''/home/user/inet/examples/ethernet/results''}
                 then rmtree (results_path home_config)
                        {''/home/user/inet/examples/ethernet/results''}
                 else {''/home/user/inet/examples/ethernet/results''})"
proof -
  have pc: "results_path tmp_config = ''/tmp/inet/examples/ethernet/results''"
    by (simp add: tmp_config_def results_path_def os_path_join_def)
  have ph: "results_path home_config = ''/home/user/inet/examples/ethernet/results''"
    by (simp add: home_config_def results_path_def os_path_join_def)
  have nc: "\<not> sublist ''/home/'' (results_path tmp_config)"
    unfolding pc by code_simp
  have nh: "sublist ''/home/'' (results_path home_config)"
    unfolding ph by code_simp
  note g1 = clean_simulation_results_guard [of tmp_config, THEN conjunct1, THEN mp, OF nc]
  note g2 = clean_simulation_results_guard
              [of home_config, THEN conjunct2, THEN conjunct2, THEN mp, OF nh]
  show ?thesis
    by (intro conjI nc nh g1 g2)
qed

section \<open>Properties of inet/test/chart.py\<close>

lemma example_folder:
  "os_path_dirname (get_full_path (project example_task) (analysis_file_name example_task))
   = ''/home/user/inet/showcases/wireless''"
  by (simp add: os_path_dirname_def example_task_def)

lemma example_chart_name: "chart_name example_task = ''throughput''"
  by (simp add: example_task_def)

subsection \<open>A failed simulation batch\<close>

text \<open>
  C2. The claim: when the simulation batch does not end with \<open>DONE\<close>,
  \<open>MultipleChartTestTasks.run_protected\<close> returns a result with the code and the reason of
  that batch. The code reads them from the name \<open>simulation_task_result\<close>, which is not the
  variable that holds the result of the batch: for a batch that ended with \<open>ERROR\<close> the
  call raises \<open>NameError\<close> when no global has that name, and returns the code and reason
  of that global otherwise; in neither case those of the batch.
\<close>

theorem multiple_chart_tests_failed_batch:
  "MultipleChartTestTasks_run_protected Map.empty failed_simulations chart_tests fs
     = (Inl (NameError ''simulation_task_result''), fs)
   \<and> MultipleChartTestTasks_run_protected globals failed_simulations chart_tests fs
     = (case globals ''simulation_task_result'' of
          None \<Rightarrow> (Inl (NameError ''simulation_task_result''), fs)
        | Some r \<Rightarrow>
            (Inr \<lparr>result = result r, expected_result = None, reason = reason r\<rparr>, fs))"
  by (simp add: MultipleChartTestTasks_run_protected_def failed_simulations_def)

subsection \<open>A chart without a file name\<close>

text \<open>
  C5. The claim: a chart whose property \<open>image_export_filename\<close> is \<open>None\<close> or empty
  gives \<open>SKIP\<close> with the reason "Chart file name is not specified" and the expected
  result \<open>SKIP\<close>. For the empty text the code does so; for \<open>None\<close> the concatenation
  with "_new" comes before the test for \<open>None\<close> and raises \<open>TypeError\<close>.
\<close>

theorem chart_test_filename_none_raises:
  "ChartTestTask_run_protected (example_scave [example_chart None]) example_task keep_charts fs
     = (Inl (TypeError ''unsupported operand type(s) for +: NoneType and str''), fs)
   \<and> fst (ChartTestTask_run_protected (example_scave [example_chart (Some [])]) example_task
            keep_charts fs)
     = Inr \<lparr>result = ''SKIP'', expected_result = Some ''SKIP'',
             reason = Some ''Chart file name is not specified''\<rparr>"
  by (simp add: ChartTestTask_run_protected_def ChartTestTask_chart_def example_scave_def
       example_chart_def example_task_def str_add_def export_image_def Let_def)

subsection \<open>The name of the baseline file\<close>

text \<open>
  C10. The claim: for every declared name N the baseline is the file named N, also when
  N contains "_new". The code removes every "_new" from the name of the candidate: for
  the declared name "throughput_new", with a baseline at
  \<open>doc/media/throughput_new.png\<close>, the update task does not find the baseline, answers
  \<open>INSERT\<close>, leaves that file as it was and moves the candidate to
  \<open>doc/media/throughput.png\<close>; the test task, with a baseline equal to the candidate,
  answers \<open>FAIL\<close> with "Chart not found".
\<close>

theorem chart_baseline_name_new_inside:
  "fst (ChartUpdateTask_run_protected (example_scave [example_chart (Some ''throughput_new'')])
          example_task
          [''/home/user/inet/showcases/wireless/doc/media/throughput_new.png'' \<mapsto> ''baseline''])
     = Inr \<lparr>result = ''INSERT'', expected_result = None, reason = None\<rparr>
   \<and> snd (ChartUpdateTask_run_protected (example_scave [example_chart (Some ''throughput_new'')])
          example_task
          [''/home/user/inet/showcases/wireless/doc/media/throughput_new.png'' \<mapsto> ''baseline''])
         ''/home/user/inet/showcases/wireless/doc/media/throughput_new.png'' = Some ''baseline''
   \<and> snd (ChartUpdateTask_run_protected (example_scave [example_chart (Some ''throughput_new'')])
          example_task
          [''/home/user/inet/showcases/wireless/doc/media/throughput_new.png'' \<mapsto> ''baseline''])
         ''/home/user/inet/showcases/wireless/doc/media/throughput.png''
       = Some ''image of throughput''
   \<and> fst (ChartTestTask_run_protected (example_scave [example_chart (Some ''throughput_new'')])
          example_task False
          [''/home/user/inet/showcases/wireless/doc/media/throughput_new.png''
             \<mapsto> ''image of throughput''])
     = Inr \<lparr>result = ''FAIL'', expected_result = None, reason = Some ''Chart not found''\<rparr>"
  by (simp add: ChartUpdateTask_run_protected_def ChartUpdateTask_chart_def
        ChartTestTask_run_protected_def ChartTestTask_chart_def example_folder
        example_chart_name export_image_def os_path_join_def os_rename_def str_add_def Let_def
        example_scave_def example_chart_def)

subsection \<open>Facts about the concrete inputs\<close>

lemma example_found:
  "find_chart (example_scave [example_chart v]) example_task = Some (example_chart v)"
  by (simp add: find_chart_def example_scave_def example_chart_def example_chart_name)

lemma example_none_found: "find_chart (example_scave []) example_task = None"
  by (simp add: find_chart_def example_scave_def)

lemma example_property:
  "properties (example_chart v) ''image_export_filename'' = Some v"
  by (simp add: example_chart_def)

lemma example_render: "render (example_scave cs) (example_chart v) = ''image of throughput''"
  by (simp add: example_scave_def example_chart_def)

lemma throughput_no_new: "\<not> sublist ''_new'' ''throughput''"
  by code_simp

subsection \<open>The two outcomes with the reason "Chart not found"\<close>

text \<open>
  C6, as amended. When no chart of the analysis file has the name of the task,
  \<open>ChartTestTask\<close> returns \<open>ERROR\<close> with the reason "Chart not found". When the chart is
  found, its declared file name is a text that is not empty and does not contain "_new",
  and no file exists at the baseline path of that name, the result is \<open>FAIL\<close> with the
  same reason.
\<close>

theorem chart_test_not_found:
  "(find_chart E t = None \<longrightarrow>
      ChartTestTask_run_protected E t keep_charts fs =
        (Inr \<lparr>result = ''ERROR'', expected_result = None,
              reason = Some ''Chart not found''\<rparr>, fs))
   \<and> (find_chart E t = Some c \<and> properties c ''image_export_filename'' = Some (Some n)
        \<and> n \<noteq> [] \<and> \<not> sublist ''_new'' n \<and> fs (baseline_path t n) = None \<longrightarrow>
      fst (ChartTestTask_run_protected E t keep_charts fs) =
        Inr \<lparr>result = ''FAIL'', expected_result = None, reason = Some ''Chart not found''\<rparr>)"
proof (intro conjI impI)
  assume "find_chart E t = None"
  then show "ChartTestTask_run_protected E t keep_charts fs =
        (Inr \<lparr>result = ''ERROR'', expected_result = None,
              reason = Some ''Chart not found''\<rparr>, fs)"
    by (rule ChartTestTask_run_protected_not_found)
next
  assume a: "find_chart E t = Some c \<and> properties c ''image_export_filename'' = Some (Some n)
        \<and> n \<noteq> [] \<and> \<not> sublist ''_new'' n \<and> fs (baseline_path t n) = None"
  then have "ChartTestTask_run_protected E t keep_charts fs
             = ChartTestTask_chart E t keep_charts c fs"
    by (simp add: ChartTestTask_run_protected_found)
  moreover have "fst (ChartTestTask_chart E t keep_charts c fs) =
        Inr \<lparr>result = ''FAIL'', expected_result = None, reason = Some ''Chart not found''\<rparr>"
    using a by (simp add: ChartTestTask_chart_named Let_def)
  ultimately show "fst (ChartTestTask_run_protected E t keep_charts fs) =
        Inr \<lparr>result = ''FAIL'', expected_result = None, reason = Some ''Chart not found''\<rparr>"
    by simp
qed

theorem chart_test_not_found_witness:
  "ChartTestTask_run_protected (example_scave []) example_task False Map.empty =
     (Inr \<lparr>result = ''ERROR'', expected_result = None, reason = Some ''Chart not found''\<rparr>,
      Map.empty)
   \<and> fst (ChartTestTask_run_protected (example_scave [example_chart (Some ''throughput'')])
            example_task False Map.empty) =
     Inr \<lparr>result = ''FAIL'', expected_result = None, reason = Some ''Chart not found''\<rparr>"
proof -
  have n: "''throughput'' \<noteq> []" by simp
  have e: "(Map.empty :: files) (baseline_path example_task ''throughput'') = None" by simp
  note a = chart_test_not_found
             [where E = "example_scave []" and t = example_task and keep_charts = False
                and fs = Map.empty, THEN conjunct1, THEN mp, OF example_none_found]
  note b = chart_test_not_found
             [where E = "example_scave [example_chart (Some ''throughput'')]"
                and t = example_task and c = "example_chart (Some ''throughput'')"
                and n = "''throughput''" and fs = Map.empty and keep_charts = False,
              THEN conjunct2, THEN mp,
              OF conjI [OF example_found conjI [OF example_property
                   conjI [OF n conjI [OF throughput_no_new e]]]]]
  show ?thesis
    by (intro conjI a b)
qed

text \<open>
  C6 as stated fails for a chart that is found and has the empty declared name: with no
  baseline file, the result is \<open>SKIP\<close>, not \<open>FAIL\<close>.
\<close>

theorem chart_test_not_found_counterexample:
  "find_chart (example_scave [example_chart (Some [])]) example_task
     = Some (example_chart (Some []))
   \<and> (Map.empty :: files) (baseline_path example_task []) = None
   \<and> fst (ChartTestTask_run_protected (example_scave [example_chart (Some [])]) example_task
            False Map.empty)
     = Inr \<lparr>result = ''SKIP'', expected_result = Some ''SKIP'',
             reason = Some ''Chart file name is not specified''\<rparr>
   \<and> fst (ChartTestTask_run_protected (example_scave [example_chart (Some [])]) example_task
            False Map.empty)
     \<noteq> Inr \<lparr>result = ''FAIL'', expected_result = None, reason = Some ''Chart not found''\<rparr>"
  by (simp add: example_found ChartTestTask_run_protected_found ChartTestTask_chart_def
        example_property str_add_def export_image_def Let_def)

subsection \<open>The comparison with the baseline\<close>








subsection \<open>The reconciliation of the baseline\<close>

text \<open>
  C3, as amended. When the chart is found and its declared file name is a text that is
  not empty and does not contain "_new", \<open>ChartUpdateTask\<close> answers by the baseline file
  of that name: with no baseline, \<open>INSERT\<close>, and the candidate becomes the baseline;
  with a baseline of the same bytes as the candidate, \<open>KEEP\<close>, and the baseline stays;
  with a baseline of other bytes, \<open>UPDATE\<close>, and the candidate replaces the baseline. In
  each case no file is left at the candidate path. The task computes no metric: its
  outcome is the same whatever \<open>imread\<close>, \<open>rmse\<close>, the test for zero and \<open>str\<close> are.
\<close>

theorem chart_update_reconcile:
  assumes "find_chart E t = Some c"
    and "properties c ''image_export_filename'' = Some (Some n)"
    and "n \<noteq> []" and "\<not> sublist ''_new'' n"
  shows "let r = ChartUpdateTask_run_protected E t fs
         in (case fs (baseline_path t n) of
               None \<Rightarrow>
                 fst r = Inr \<lparr>result = ''INSERT'', expected_result = None, reason = None\<rparr>
                 \<and> snd r (baseline_path t n) = Some (render E c)
             | Some old_bytes \<Rightarrow>
                 (if old_bytes = render E c
                  then fst r = Inr \<lparr>result = ''KEEP'', expected_result = None, reason = None\<rparr>
                       \<and> snd r (baseline_path t n) = Some old_bytes
                  else fst r = Inr \<lparr>result = ''UPDATE'', expected_result = None,
                                     reason = None\<rparr>
                       \<and> snd r (baseline_path t n) = Some (render E c)))
          \<and> snd r (candidate_path t n) = None
          \<and> ChartUpdateTask_run_protected
               (E\<lparr>imread := i, rmse := m, metric_is_zero := z, str_metric := s\<rparr>) t fs = r"
proof -
  let ?E' = "E\<lparr>imread := i, rmse := m, metric_is_zero := z, str_metric := s\<rparr>"
  have d: "baseline_path t n \<noteq> candidate_path t n"
    using candidate_is_not_baseline [of t n] by simp
  have r: "ChartUpdateTask_run_protected E t fs = ChartUpdateTask_chart E t c fs"
    using assms(1) by (rule ChartUpdateTask_run_protected_found)
  have "find_chart ?E' t = Some c"
    using assms(1) by (simp add: find_chart_def)
  then have r': "ChartUpdateTask_run_protected ?E' t fs = ChartUpdateTask_chart ?E' t c fs"
    by (rule ChartUpdateTask_run_protected_found)
  have e: "ChartUpdateTask_chart ?E' t c fs = ChartUpdateTask_chart E t c fs"
    by (simp add: ChartUpdateTask_chart_named [OF assms(2) assms(3) assms(4)] Let_def
          split: option.split)
  show ?thesis
    using d
    by (simp add: r r' e ChartUpdateTask_chart_named [OF assms(2) assms(3) assms(4)] Let_def
          split: option.split)
qed

theorem chart_update_reconcile_witness:
  "fst (ChartUpdateTask_run_protected (example_scave [example_chart (Some ''throughput'')])
          example_task Map.empty)
     = Inr \<lparr>result = ''INSERT'', expected_result = None, reason = None\<rparr>
   \<and> snd (ChartUpdateTask_run_protected (example_scave [example_chart (Some ''throughput'')])
          example_task Map.empty) (baseline_path example_task ''throughput'')
     = Some ''image of throughput''
   \<and> fst (ChartUpdateTask_run_protected (example_scave [example_chart (Some ''throughput'')])
          example_task [baseline_path example_task ''throughput'' \<mapsto> ''image of throughput''])
     = Inr \<lparr>result = ''KEEP'', expected_result = None, reason = None\<rparr>
   \<and> fst (ChartUpdateTask_run_protected (example_scave [example_chart (Some ''throughput'')])
          example_task [baseline_path example_task ''throughput'' \<mapsto> ''an older image''])
     = Inr \<lparr>result = ''UPDATE'', expected_result = None, reason = None\<rparr>
   \<and> snd (ChartUpdateTask_run_protected (example_scave [example_chart (Some ''throughput'')])
          example_task [baseline_path example_task ''throughput'' \<mapsto> ''an older image''])
         (baseline_path example_task ''throughput'')
     = Some ''image of throughput''
   \<and> snd (ChartUpdateTask_run_protected (example_scave [example_chart (Some ''throughput'')])
          example_task [baseline_path example_task ''throughput'' \<mapsto> ''an older image''])
         (candidate_path example_task ''throughput'')
     = None"
proof -
  have n: "''throughput'' \<noteq> []" by simp
  note a = chart_update_reconcile
             [where E = "example_scave [example_chart (Some ''throughput'')]"
                and t = example_task and c = "example_chart (Some ''throughput'')"
                and n = "''throughput''" and fs = Map.empty,
              OF example_found example_property n throughput_no_new]
  note b = chart_update_reconcile
             [where E = "example_scave [example_chart (Some ''throughput'')]"
                and t = example_task and c = "example_chart (Some ''throughput'')"
                and n = "''throughput''"
                and fs = "[baseline_path example_task ''throughput'' \<mapsto> ''image of throughput'']",
              OF example_found example_property n throughput_no_new]
  note c = chart_update_reconcile
             [where E = "example_scave [example_chart (Some ''throughput'')]"
                and t = example_task and c = "example_chart (Some ''throughput'')"
                and n = "''throughput''"
                and fs = "[baseline_path example_task ''throughput'' \<mapsto> ''an older image'']",
              OF example_found example_property n throughput_no_new]
  show ?thesis
    using a b c by (simp add: Let_def example_render)
qed

text \<open>
  C3 as stated fails for a chart that is found and has the empty declared name: with no
  baseline file the result is \<open>SKIP\<close>, not \<open>INSERT\<close>; the candidate file stays where it
  was rendered and nothing is moved to the baseline path.
\<close>

theorem chart_update_reconcile_counterexample:
  "find_chart (example_scave [example_chart (Some [])]) example_task
     = Some (example_chart (Some []))
   \<and> (Map.empty :: files) (baseline_path example_task []) = None
   \<and> fst (ChartUpdateTask_run_protected (example_scave [example_chart (Some [])]) example_task
            Map.empty)
     = Inr \<lparr>result = ''SKIP'', expected_result = Some ''SKIP'',
             reason = Some ''Chart file name is not specified''\<rparr>
   \<and> snd (ChartUpdateTask_run_protected (example_scave [example_chart (Some [])]) example_task
            Map.empty) (candidate_path example_task []) = Some ''image of throughput''
   \<and> snd (ChartUpdateTask_run_protected (example_scave [example_chart (Some [])]) example_task
            Map.empty) (baseline_path example_task []) = None"
proof -
  have d: "baseline_path example_task [] \<noteq> candidate_path example_task []"
    using candidate_is_not_baseline [of example_task "[]"] by simp
  have c: "candidate_path example_task []
           = os_path_join (chart_folder example_task) (os_path_join ''doc/media'' ''_new.png'')"
    by (simp add: candidate_path_def)
  show ?thesis
    using d
    by (simp add: example_found ChartUpdateTask_run_protected_found ChartUpdateTask_chart_def
          example_property example_render str_add_def export_image_def Let_def
          c chart_folder_def)
qed

end
